theory Spec2Isabelle
  imports Main "HOL-Library.Word"
begin

section \<open>JavaScript strings\<close>

text \<open>
  A JavaScript string is a sequence of UTF-16 code units; \<open>length\<close>, \<open>!==\<close>, \<open>trim\<close> and a
  regular expression without the \<open>u\<close> flag all work on code units.
\<close>

type_synonym jschar = "16 word"
type_synonym jsstring = "jschar list"

definition str :: "string \<Rightarrow> jsstring" where
  "str s = map of_char s"

text \<open>
  \<open>WhiteSpace\<close> and \<open>LineTerminator\<close> of ECMAScript: the code units that \<open>trim\<close> strips and
  that \<open>\s\<close> matches (so \<open>\S\<close> matches every other code unit).
\<close>

definition isWhiteSpace :: "jschar \<Rightarrow> bool" where
  "isWhiteSpace c =
     (c = 0x09 \<or> c = 0x0A \<or> c = 0x0B \<or> c = 0x0C \<or> c = 0x0D \<or> c = 0x20 \<or> c = 0xA0 \<or>
      c = 0x1680 \<or> (0x2000 \<le> c \<and> c \<le> 0x200A) \<or> c = 0x2028 \<or> c = 0x2029 \<or>
      c = 0x202F \<or> c = 0x205F \<or> c = 0x3000 \<or> c = 0xFEFF)"

definition trim :: "jsstring \<Rightarrow> jsstring" where
  "trim s = rev (dropWhile isWhiteSpace (rev (dropWhile isWhiteSpace s)))"

section \<open>Regular expressions\<close>

text \<open>
  The fragment of the regular-expression syntax that the form uses: a sequence of
  one-character atoms (a literal, a bracketed class of characters and ranges, \<open>\d\<close>,
  \<open>\S\<close>), each taken once or followed by \<open>+\<close>.
\<close>

datatype cls_item = Chr jschar | Rng jschar jschar

datatype atom = Lit jschar | Class "cls_item list" | EscDigit | EscNonSpace

datatype quant = Once | OneOrMore

type_synonym regex = "(atom \<times> quant) list"

fun itemMatches :: "cls_item \<Rightarrow> jschar \<Rightarrow> bool" where
  "itemMatches (Chr x) c = (c = x)"
| "itemMatches (Rng lo hi) c = (lo \<le> c \<and> c \<le> hi)"

fun atomMatches :: "atom \<Rightarrow> jschar \<Rightarrow> bool" where
  "atomMatches (Lit x) c = (c = x)"
| "atomMatches (Class items) c = list_ex (\<lambda>i. itemMatches i c) items"
| "atomMatches EscDigit c = (0x30 \<le> c \<and> c \<le> 0x39)"
| "atomMatches EscNonSpace c = (\<not> isWhiteSpace c)"

text \<open>
  \<open>matchHere re s\<close>: the pattern matches a prefix of \<open>s\<close>. A \<open>+\<close> is greedy: it first
  tries to take one more character and falls back to the rest of the pattern.
\<close>

fun matchHere :: "regex \<Rightarrow> jsstring \<Rightarrow> bool" where
  "matchHere [] s = True"
| "matchHere ((a, q) # re) [] = False"
| "matchHere ((a, Once) # re) (c # cs) = (atomMatches a c \<and> matchHere re cs)"
| "matchHere ((a, OneOrMore) # re) (c # cs) =
     (atomMatches a c \<and> (matchHere ((a, OneOrMore) # re) cs \<or> matchHere re cs))"

text \<open>\<open>RegExp.prototype.test\<close> without flags: try every start position from the left.\<close>

fun test :: "regex \<Rightarrow> jsstring \<Rightarrow> bool" where
  "test re [] = matchHere re []"
| "test re (c # cs) = (matchHere re (c # cs) \<or> test re cs)"


section \<open>The signup form\<close>

record FormData =
  email :: jsstring
  username :: jsstring
  password :: jsstring
  confirmPassword :: jsstring

record PasswordCriteria =
  minLength :: bool
  hasUppercase :: bool
  hasSymbol :: bool
  hasDigit :: bool
  notSameAsUsername :: bool

text \<open>The names of the four inputs bound to the change handler, the keys of \<open>FormData\<close>.\<close>

datatype field = Email | Username | Password | ConfirmPassword

text \<open>
  \<open>errors\<close> is a \<open>Partial<FormData>\<close>: an object in which a key is absent, or present with
  the value \<open>undefined\<close>, or present with a string.
\<close>

datatype errval = Undefined | Msg jsstring

type_synonym Errors = "field \<rightharpoonup> errval"

record State =
  formData :: FormData
  errors :: Errors

subsection \<open>The four regular expressions of the source\<close>

definition reUppercase :: regex where
  "reUppercase = [(Class [Rng 0x41 0x5A], Once)]"

text \<open>
  The class \<open>[!@#$%^&*()_+\-=\[\]{};':"\\|,.<>\/?]\<close>, member by member; the quote, the
  double quote and the backslash are given by code unit.
\<close>

definition reSymbol :: regex where
  "reSymbol =
     [(Class (map Chr (str ''!@#$%^&*()_+-=[]{};'') @ [Chr 0x27, Chr 0x3A, Chr 0x22, Chr 0x5C] @
              map Chr (str ''|,.<>/?'')), Once)]"

definition reDigit :: regex where
  "reDigit = [(EscDigit, Once)]"

definition reEmail :: regex where
  "reEmail =
     [(EscNonSpace, OneOrMore), (Lit 0x40, Once), (EscNonSpace, OneOrMore), (Lit 0x2E, Once),
      (EscNonSpace, OneOrMore)]"

subsection \<open>Password criteria\<close>

definition passwordCriteria :: "FormData \<Rightarrow> PasswordCriteria" where
  "passwordCriteria fd =
     (let pw = password fd; un = username fd in
      \<lparr> minLength = (length pw \<ge> 8),
        hasUppercase = test reUppercase pw,
        hasSymbol = test reSymbol pw,
        hasDigit = test reDigit pw,
        notSameAsUsername = (pw \<noteq> un \<and> length pw > 0 \<and> length un > 0) \<rparr>)"

definition objectValues :: "PasswordCriteria \<Rightarrow> bool list" where
  "objectValues pc =
     [minLength pc, hasUppercase pc, hasSymbol pc, hasDigit pc, notSameAsUsername pc]"

definition isPasswordValid :: "PasswordCriteria \<Rightarrow> bool" where
  "isPasswordValid pc = list_all (\<lambda>criteria. criteria) (objectValues pc)"

subsection \<open>Editing a field\<close>

fun getField :: "field \<Rightarrow> FormData \<Rightarrow> jsstring" where
  "getField Email fd = email fd"
| "getField Username fd = username fd"
| "getField Password fd = password fd"
| "getField ConfirmPassword fd = confirmPassword fd"

fun setField :: "field \<Rightarrow> jsstring \<Rightarrow> FormData \<Rightarrow> FormData" where
  "setField Email v fd = fd\<lparr>email := v\<rparr>"
| "setField Username v fd = fd\<lparr>username := v\<rparr>"
| "setField Password v fd = fd\<lparr>password := v\<rparr>"
| "setField ConfirmPassword v fd = fd\<lparr>confirmPassword := v\<rparr>"

text \<open>Reading a property: an absent key reads as \<open>undefined\<close>.\<close>

definition readProp :: "Errors \<Rightarrow> field \<Rightarrow> errval" where
  "readProp e f = (case e f of None \<Rightarrow> Undefined | Some v \<Rightarrow> v)"

text \<open>Truthiness: \<open>undefined\<close> and the empty string are falsy.\<close>

fun truthy :: "errval \<Rightarrow> bool" where
  "truthy Undefined = False"
| "truthy (Msg m) = (m \<noteq> [])"

text \<open>
  \<open>handleInputChange\<close> for the input called \<open>name\<close> receiving \<open>v\<close>. The handler reads
  \<open>errors\<close> of the current render and updates the state of the same render.
\<close>

definition handleInputChange :: "field \<Rightarrow> jsstring \<Rightarrow> State \<Rightarrow> State" where
  "handleInputChange name v st =
     \<lparr> formData = setField name v (formData st),
       errors = (if truthy (readProp (errors st) name)
                 then (errors st)(name \<mapsto> Undefined)
                 else errors st) \<rparr>"

subsection \<open>Validating on submit\<close>

definition newErrors :: "FormData \<Rightarrow> Errors" where
  "newErrors fd =
     (let e0 = Map.empty;
          e1 = (if trim (email fd) = [] then e0(Email \<mapsto> Msg (str ''Email is required''))
                else if \<not> test reEmail (email fd) then e0(Email \<mapsto> Msg (str ''Email is invalid''))
                else e0);
          e2 = (if trim (username fd) = [] then e1(Username \<mapsto> Msg (str ''Username is required''))
                else e1);
          e3 = (if password fd = [] then e2(Password \<mapsto> Msg (str ''Password is required''))
                else if \<not> isPasswordValid (passwordCriteria fd)
                then e2(Password \<mapsto> Msg (str ''Password does not meet all criteria''))
                else e2);
          e4 = (if confirmPassword fd = []
                then e3(ConfirmPassword \<mapsto> Msg (str ''Please confirm your password''))
                else if password fd \<noteq> confirmPassword fd
                then e3(ConfirmPassword \<mapsto> Msg (str ''Passwords do not match''))
                else e3)
      in e4)"

definition objectKeys :: "Errors \<Rightarrow> field list" where
  "objectKeys e = filter (\<lambda>f. e f \<noteq> None) [Email, Username, Password, ConfirmPassword]"

text \<open>\<open>validateForm\<close> returns its verdict and the state after \<open>setErrors(newErrors)\<close>.\<close>

definition validateForm :: "State \<Rightarrow> bool \<times> State" where
  "validateForm st =
     (let e = newErrors (formData st) in (length (objectKeys e) = 0, st\<lparr>errors := e\<rparr>))"

text \<open>The \<open>disabled\<close> attribute of the submit button.\<close>

definition submitDisabled :: "FormData \<Rightarrow> bool" where
  "submitDisabled fd =
     (\<not> isPasswordValid (passwordCriteria fd) \<or> password fd \<noteq> confirmPassword fd)"


text \<open>
  The loose pattern in the words of the specification, for comparison with \<open>reEmail\<close>:
  the string has an \<open>@\<close> with a non-whitespace character on each side, and a \<open>.\<close> with a
  non-whitespace character on each side.
\<close>

fun flanked :: "jschar \<Rightarrow> jsstring \<Rightarrow> bool" where
  "flanked x (a # b # c # r) =
     ((\<not> isWhiteSpace a \<and> b = x \<and> \<not> isWhiteSpace c) \<or> flanked x (b # c # r))"
| "flanked x r = False"

definition specLoosePattern :: "jsstring \<Rightarrow> bool" where
  "specLoosePattern s = (flanked 0x40 s \<and> flanked 0x2E s)"

text \<open>
  What \<open>reEmail\<close> looks for: an \<open>@\<close> right after a non-whitespace character, then a
  non-empty run free of whitespace, then a \<open>.\<close>, then a non-whitespace character.
\<close>

definition emailShape :: "jsstring \<Rightarrow> bool" where
  "emailShape s =
     (\<exists>u a m b v. s = u @ [a, 0x40] @ m @ [0x2E, b] @ v \<and> \<not> isWhiteSpace a \<and> m \<noteq> [] \<and>
        (\<forall>c\<in>set m. \<not> isWhiteSpace c) \<and> \<not> isWhiteSpace b)"

text \<open>The punctuation set of the specification's table, by code unit.\<close>

definition punctuation :: "jschar set" where
  "punctuation =
     {0x21, 0x40, 0x23, 0x24, 0x25, 0x5E, 0x26, 0x2A, 0x28, 0x29, 0x5F, 0x2B, 0x2D, 0x3D, 0x5B,
      0x5D, 0x7B, 0x7D, 0x3B, 0x27, 0x3A, 0x22, 0x5C, 0x7C, 0x2C, 0x2E, 0x3C, 0x3E, 0x2F, 0x3F}"




text \<open>Sample form contents used below.\<close>

definition sampleForm :: FormData where
  "sampleForm =
     \<lparr> email = str ''a@b.com'', username = str ''alice'', password = str ''Abcdef1!'',
       confirmPassword = str ''Abcdef1!'' \<rparr>"

section \<open>Properties of the matcher\<close>

lemmas eval_defs =
  str_def trim_def isWhiteSpace_def passwordCriteria_def reUppercase_def reSymbol_def
  reDigit_def reEmail_def newErrors_def validateForm_def objectKeys_def isPasswordValid_def
  objectValues_def submitDisabled_def sampleForm_def handleInputChange_def readProp_def Let_def

lemma test_once: "test [(a, Once)] s \<longleftrightarrow> (\<exists>c\<in>set s. atomMatches a c)"
  by (induction s) auto


lemma matchHere_once:
  "matchHere ((a, Once) # re) s \<longleftrightarrow> (\<exists>c y. s = c # y \<and> atomMatches a c \<and> matchHere re y)"
  by (cases s) auto

lemma matchHere_plus:
  "matchHere ((a, OneOrMore) # re) s \<longleftrightarrow>
     (\<exists>x y. s = x @ y \<and> x \<noteq> [] \<and> (\<forall>c\<in>set x. atomMatches a c) \<and> matchHere re y)"
proof (induction s)
  case Nil
  show ?case by simp
next
  case (Cons c cs)
  note IH = Cons.IH
  show ?case
  proof
    assume "matchHere ((a, OneOrMore) # re) (c # cs)"
    then have c: "atomMatches a c"
      and alt: "matchHere ((a, OneOrMore) # re) cs \<or> matchHere re cs" by simp_all
    from alt show "\<exists>x y. c # cs = x @ y \<and> x \<noteq> [] \<and> (\<forall>c\<in>set x. atomMatches a c) \<and> matchHere re y"
    proof
      assume "matchHere ((a, OneOrMore) # re) cs"
      with IH obtain x y where "cs = x @ y" "\<forall>c\<in>set x. atomMatches a c" "matchHere re y"
        by blast
      with c have "c # cs = (c # x) @ y \<and> c # x \<noteq> [] \<and>
          (\<forall>d\<in>set (c # x). atomMatches a d) \<and> matchHere re y"
        by simp
      then show ?thesis by blast
    next
      assume "matchHere re cs"
      with c have "c # cs = [c] @ cs \<and> [c] \<noteq> [] \<and>
          (\<forall>d\<in>set [c]. atomMatches a d) \<and> matchHere re cs"
        by simp
      then show ?thesis by blast
    qed
  next
    assume "\<exists>x y. c # cs = x @ y \<and> x \<noteq> [] \<and> (\<forall>c\<in>set x. atomMatches a c) \<and> matchHere re y"
    then obtain x y where xy: "c # cs = x @ y" "x \<noteq> []" "\<forall>c\<in>set x. atomMatches a c"
        "matchHere re y"
      by blast
    then obtain x' where x: "x = c # x'" "cs = x' @ y"
      by (cases x) auto
    show "matchHere ((a, OneOrMore) # re) (c # cs)"
    proof (cases "x' = []")
      case True
      with x xy show ?thesis by simp
    next
      case False
      with x xy IH have "matchHere ((a, OneOrMore) # re) cs" by auto
      with x xy show ?thesis by simp
    qed
  qed
qed

lemma test_iff: "test re s \<longleftrightarrow> (\<exists>u w. s = u @ w \<and> matchHere re w)"
proof (induction s)
  case Nil
  show ?case by simp
next
  case (Cons c cs)
  note IH = Cons.IH
  show ?case
  proof
    assume "test re (c # cs)"
    then consider "matchHere re (c # cs)" | "test re cs" by auto
    then show "\<exists>u w. c # cs = u @ w \<and> matchHere re w"
    proof cases
      case 1
      then have "c # cs = [] @ (c # cs) \<and> matchHere re (c # cs)" by simp
      then show ?thesis by blast
    next
      case 2
      with IH obtain u w where "cs = u @ w" "matchHere re w" by blast
      then have "c # cs = (c # u) @ w \<and> matchHere re w" by simp
      then show ?thesis by blast
    qed
  next
    assume "\<exists>u w. c # cs = u @ w \<and> matchHere re w"
    then obtain u w where uw: "c # cs = u @ w" "matchHere re w" by blast
    show "test re (c # cs)"
    proof (cases "u = []")
      case True
      with uw have "matchHere re (c # cs)" by simp
      then show ?thesis by simp
    next
      case False
      with uw obtain u' where "cs = u' @ w" by (cases u) auto
      with uw IH have "test re cs" by blast
      then show ?thesis by simp
    qed
  qed
qed


lemma symbol_class:
  "atomMatches (Class (map Chr (str ''!@#$%^&*()_+-=[]{};'') @
       [Chr 0x27, Chr 0x3A, Chr 0x22, Chr 0x5C] @ map Chr (str ''|,.<>/?''))) c \<longleftrightarrow>
     c \<in> punctuation"
  by (simp add: str_def punctuation_def)

lemma all_dropWhile: "(\<forall>x\<in>set (dropWhile P s). P x) \<longleftrightarrow> (\<forall>x\<in>set s. P x)"
  by (induction s) auto

lemma blank_trim: "trim s = [] \<longleftrightarrow> (\<forall>c\<in>set s. isWhiteSpace c)"
  by (simp add: trim_def dropWhile_eq_Nil_conv all_dropWhile)

lemma test_reEmail: "test reEmail s \<longleftrightarrow> emailShape s"
proof
  assume "test reEmail s"
  then obtain u x y z v where s: "s = u @ x @ [0x40] @ y @ [0x2E] @ z @ v"
    and x: "x \<noteq> []" "\<forall>c\<in>set x. \<not> isWhiteSpace c"
    and y: "y \<noteq> []" "\<forall>c\<in>set y. \<not> isWhiteSpace c"
    and z: "z \<noteq> []" "\<forall>c\<in>set z. \<not> isWhiteSpace c"
    unfolding reEmail_def test_iff matchHere_plus matchHere_once
    by auto
  from x obtain x' a where xa: "x = x' @ [a]" by (cases x rule: rev_cases) auto
  from z obtain b z' where zb: "z = b # z'" by (cases z) auto
  have "s = (u @ x') @ [a, 0x40] @ y @ [0x2E, b] @ (z' @ v)"
    using s xa zb by simp
  moreover have "\<not> isWhiteSpace a" "\<not> isWhiteSpace b" using x z xa zb by auto
  ultimately show "emailShape s" unfolding emailShape_def using y by blast
next
  let ?dot = "[(Lit 0x2E, Once), (EscNonSpace, OneOrMore)]"
  let ?at = "[(Lit 0x40, Once), (EscNonSpace, OneOrMore), (Lit 0x2E, Once),
    (EscNonSpace, OneOrMore)]"
  assume "emailShape s"
  then obtain u a m b v where s: "s = u @ [a, 0x40] @ m @ [0x2E, b] @ v"
    and ab: "\<not> isWhiteSpace a" "\<not> isWhiteSpace b"
    and m: "m \<noteq> []" "\<forall>c\<in>set m. \<not> isWhiteSpace c"
    unfolding emailShape_def by blast
  have 5: "matchHere [(EscNonSpace, OneOrMore)] ([b] @ v)"
    unfolding matchHere_plus using ab by (intro exI[of _ "[b]"] exI[of _ v]) simp
  have 4: "matchHere ?dot (0x2E # [b] @ v)"
    unfolding matchHere_once using 5 by simp
  have 3: "matchHere ((EscNonSpace, OneOrMore) # ?dot) (m @ 0x2E # [b] @ v)"
    unfolding matchHere_plus[of _ ?dot] using 4 m
    by (intro exI[of _ m] exI[of _ "0x2E # [b] @ v"]) simp
  have 2: "matchHere ?at (0x40 # m @ 0x2E # [b] @ v)"
    using 3 by simp
  have 1: "matchHere reEmail ([a] @ 0x40 # m @ 0x2E # [b] @ v)"
    unfolding reEmail_def matchHere_plus[of _ ?at] using 2 ab
    by (intro exI[of _ "[a]"] exI[of _ "0x40 # m @ 0x2E # [b] @ v"]) simp
  show "test reEmail s"
    unfolding test_iff using 1 s
    by (intro exI[of _ u] exI[of _ "[a] @ 0x40 # m @ 0x2E # [b] @ v"]) simp
qed

section \<open>Properties of the form\<close>

lemma objectKeys_empty: "objectKeys e = [] \<longleftrightarrow> e = Map.empty"
proof
  assume "objectKeys e = []"
  then have k: "e Email = None" "e Username = None" "e Password = None"
      "e ConfirmPassword = None"
    by (auto simp: objectKeys_def split: if_splits)
  show "e = Map.empty"
  proof
    fix f show "e f = Map.empty f" using k by (cases f) simp_all
  qed
next
  assume "e = Map.empty"
  then show "objectKeys e = []" by (simp add: objectKeys_def)
qed

lemma valid_iff:
  "isPasswordValid pc \<longleftrightarrow>
     minLength pc \<and> hasUppercase pc \<and> hasSymbol pc \<and> hasDigit pc \<and> notSameAsUsername pc"
  by (simp add: isPasswordValid_def objectValues_def)

lemma valid_nonempty: "isPasswordValid (passwordCriteria fd) \<Longrightarrow> password fd \<noteq> []"
  by (auto simp: valid_iff passwordCriteria_def Let_def)

lemma newErrors_Email:
  "newErrors fd Email =
     (if trim (email fd) = [] then Some (Msg (str ''Email is required''))
      else if \<not> test reEmail (email fd) then Some (Msg (str ''Email is invalid''))
      else None)"
  by (simp add: newErrors_def Let_def)

lemma newErrors_Username:
  "newErrors fd Username =
     (if trim (username fd) = [] then Some (Msg (str ''Username is required'')) else None)"
  by (simp add: newErrors_def Let_def)

lemma newErrors_Password:
  "newErrors fd Password =
     (if password fd = [] then Some (Msg (str ''Password is required''))
      else if \<not> isPasswordValid (passwordCriteria fd)
      then Some (Msg (str ''Password does not meet all criteria''))
      else None)"
  by (simp add: newErrors_def Let_def)

lemma newErrors_ConfirmPassword:
  "newErrors fd ConfirmPassword =
     (if confirmPassword fd = [] then Some (Msg (str ''Please confirm your password''))
      else if password fd \<noteq> confirmPassword fd then Some (Msg (str ''Passwords do not match''))
      else None)"
  by (simp add: newErrors_def Let_def)

lemma validateForm_snd: "snd (validateForm st) = st\<lparr>errors := newErrors (formData st)\<rparr>"
  by (simp add: validateForm_def Let_def)

lemma validateForm_fst: "fst (validateForm st) \<longleftrightarrow> newErrors (formData st) = Map.empty"
  by (simp add: validateForm_def Let_def objectKeys_empty)

text \<open>
  C1. The password-criteria evaluator returns exactly the five booleans of the table:
  \<open>minLength\<close> iff the password has at least 8 code units, \<open>hasUppercase\<close> iff it contains
  a character in A-Z, \<open>hasSymbol\<close> iff it contains a character of the punctuation set,
  \<open>hasDigit\<close> iff it contains a digit 0-9, \<open>notSameAsUsername\<close> iff password and username
  differ and both are non-empty.
\<close>

theorem passwordCriteria_table:
  "passwordCriteria fd =
     \<lparr> minLength = (8 \<le> length (password fd)),
       hasUppercase = (\<exists>c\<in>set (password fd). 0x41 \<le> c \<and> c \<le> 0x5A),
       hasSymbol = (\<exists>c\<in>set (password fd). c \<in> punctuation),
       hasDigit = (\<exists>c\<in>set (password fd). 0x30 \<le> c \<and> c \<le> 0x39),
       notSameAsUsername =
         (password fd \<noteq> username fd \<and> password fd \<noteq> [] \<and> username fd \<noteq> []) \<rparr>"
  unfolding passwordCriteria_def Let_def reUppercase_def reSymbol_def reDigit_def test_once
    symbol_class
  by simp

theorem passwordCriteria_table_witness:
  "passwordCriteria sampleForm =
     \<lparr> minLength = True, hasUppercase = True, hasSymbol = True, hasDigit = True,
       notSameAsUsername = True \<rparr> \<and>
   passwordCriteria (sampleForm\<lparr>password := str ''alice''\<rparr>) =
     \<lparr> minLength = False, hasUppercase = False, hasSymbol = False, hasDigit = False,
       notSameAsUsername = False \<rparr>"
  using passwordCriteria_table [of sampleForm]
    passwordCriteria_table [of "sampleForm\<lparr>password := str ''alice''\<rparr>"]
  by (simp add: sampleForm_def str_def punctuation_def)


text \<open>
  C2, in the form that holds of the code. The validator gives the email field the error "Email is required" exactly
  when every character of the email is whitespace (blank after trimming); otherwise it
  gives "Email is invalid" exactly when the email has no \<open>@\<close> that directly follows a
  non-whitespace character and is followed by a non-empty whitespace-free run, a \<open>.\<close> and
  a non-whitespace character; otherwise the email gets no error.
\<close>

theorem validateForm_email:
  "errors (snd (validateForm st)) Email =
     (if \<forall>c\<in>set (email (formData st)). isWhiteSpace c
      then Some (Msg (str ''Email is required''))
      else if emailShape (email (formData st)) then None
      else Some (Msg (str ''Email is invalid'')))"
  by (simp add: validateForm_snd newErrors_Email blank_trim test_reEmail)

theorem validateForm_email_witness:
  "emailShape (str ''a@b.com'') \<and> \<not> emailShape (str ''a@b c.d'') \<and>
   errors (snd (validateForm \<lparr>formData = sampleForm\<lparr>email := str '' ''\<rparr>,
     errors = Map.empty\<rparr>)) Email = Some (Msg (str ''Email is required''))"
proof -
  have 1: "errors (snd (validateForm \<lparr>formData = sampleForm, errors = Map.empty\<rparr>)) Email
      = None"
    by (simp add: eval_defs)
  have 2: "errors (snd (validateForm \<lparr>formData = sampleForm\<lparr>email := str ''a@b c.d''\<rparr>,
      errors = Map.empty\<rparr>)) Email = Some (Msg (str ''Email is invalid''))"
    by (simp add: eval_defs)
  have a: "emailShape (str ''a@b.com'')"
    using validateForm_email [of "\<lparr>formData = sampleForm, errors = Map.empty\<rparr>"]
    unfolding 1 by (simp add: sampleForm_def str_def isWhiteSpace_def split: if_splits)
  have b: "\<not> emailShape (str ''a@b c.d'')"
    using validateForm_email [of "\<lparr>formData = sampleForm\<lparr>email := str ''a@b c.d''\<rparr>,
      errors = Map.empty\<rparr>"]
    unfolding 2 by (simp add: sampleForm_def str_def isWhiteSpace_def split: if_splits)
  have c: "errors (snd (validateForm \<lparr>formData = sampleForm\<lparr>email := str '' ''\<rparr>,
     errors = Map.empty\<rparr>)) Email = Some (Msg (str ''Email is required''))"
    using validateForm_email [of "\<lparr>formData = sampleForm\<lparr>email := str '' ''\<rparr>,
      errors = Map.empty\<rparr>"]
    by (simp add: sampleForm_def str_def isWhiteSpace_def)
  from a b c show ?thesis by blast
qed

text \<open>
  The claim as worded fails: \<open>a.b@c\<close> has an \<open>@\<close> and a \<open>.\<close>, each with a non-whitespace
  character on both sides, and the validator still answers "Email is invalid", because
  the \<open>.\<close> must come after the \<open>@\<close>.
\<close>

theorem validateForm_email_counterexample:
  "specLoosePattern (str ''a.b@c'') \<and>
   errors (snd (validateForm \<lparr>formData = sampleForm\<lparr>email := str ''a.b@c''\<rparr>,
     errors = Map.empty\<rparr>)) Email = Some (Msg (str ''Email is invalid''))"
  by (simp add: eval_defs specLoosePattern_def)

text \<open>
  C3. Overall password validity is the conjunction of the five criteria, and of nothing
  else.
\<close>

theorem isPasswordValid_and:
  "isPasswordValid pc \<longleftrightarrow>
     minLength pc \<and> hasUppercase pc \<and> hasSymbol pc \<and> hasDigit pc \<and> notSameAsUsername pc"
  by (simp add: isPasswordValid_def objectValues_def)

theorem isPasswordValid_and_witness:
  "isPasswordValid (passwordCriteria sampleForm) \<and>
   \<not> isPasswordValid (passwordCriteria (sampleForm\<lparr>username := str ''Abcdef1!''\<rparr>))"
  using isPasswordValid_and [of "passwordCriteria sampleForm"]
    isPasswordValid_and [of "passwordCriteria (sampleForm\<lparr>username := str ''Abcdef1!''\<rparr>)"]
  by (simp add: passwordCriteria_def reUppercase_def reSymbol_def reDigit_def sampleForm_def
      str_def Let_def)

text \<open>
  C4. The validator reports the form submittable iff the error state it produces is
  empty; the produced error state is computed from the form contents alone and replaces
  the previous one whole, whatever that was; the form contents are left as they were.
\<close>

theorem validateForm_replaces:
  "(fst (validateForm st) \<longleftrightarrow> errors (snd (validateForm st)) = Map.empty) \<and>
   errors (snd (validateForm st)) = newErrors (formData st) \<and>
   formData (snd (validateForm st)) = formData st \<and>
   validateForm (st\<lparr>errors := old\<rparr>) = validateForm st"
  by (simp add: validateForm_def Let_def objectKeys_empty)

theorem validateForm_replaces_witness:
  "fst (validateForm \<lparr>formData = sampleForm,
     errors = [Username \<mapsto> Msg (str ''Username is required'')]\<rparr>) \<and>
   errors (snd (validateForm \<lparr>formData = sampleForm,
     errors = [Username \<mapsto> Msg (str ''Username is required'')]\<rparr>)) = Map.empty"
proof -
  let ?st = "\<lparr>formData = sampleForm, errors = [Username \<mapsto> Msg (str ''Username is required'')]\<rparr>"
  have "newErrors sampleForm = Map.empty"
    by (simp add: eval_defs)
  with validateForm_replaces [of ?st] show ?thesis by simp
qed


text \<open>
  C5. An edit of one field stores the new value in that field and leaves the other three
  fields as they were; in the error state every other field's entry is unchanged; when
  the edited field has an error (a truthy entry), that entry becomes \<open>undefined\<close>, and when
  it has none the error state is unchanged. So afterwards the edited field has no error,
  and nothing is validated again.
\<close>

theorem handleInputChange_frame:
  "getField name (formData (handleInputChange name v st)) = v \<and>
   (\<forall>f. f \<noteq> name \<longrightarrow>
      getField f (formData (handleInputChange name v st)) = getField f (formData st) \<and>
      errors (handleInputChange name v st) f = errors st f) \<and>
   (truthy (readProp (errors st) name) \<longrightarrow>
      errors (handleInputChange name v st) name = Some Undefined) \<and>
   (\<not> truthy (readProp (errors st) name) \<longrightarrow>
      errors (handleInputChange name v st) = errors st) \<and>
   \<not> truthy (readProp (errors (handleInputChange name v st)) name)"
proof -
  have set_get: "getField name (setField name v fd) = v" for fd
    by (cases name) simp_all
  have set_other: "f \<noteq> name \<Longrightarrow> getField f (setField name v fd) = getField f fd" for f fd
    by (cases name; cases f) simp_all
  show ?thesis
    by (simp add: handleInputChange_def set_get set_other readProp_def)
qed

theorem handleInputChange_frame_witness:
  "errors (handleInputChange Email (str ''a'')
     \<lparr>formData = sampleForm\<lparr>email := []\<rparr>,
      errors = [Email \<mapsto> Msg (str ''Email is required''),
        Password \<mapsto> Msg (str ''Password is required'')]\<rparr>) Email = Some Undefined \<and>
   errors (handleInputChange Email (str ''a'')
     \<lparr>formData = sampleForm\<lparr>email := []\<rparr>,
      errors = [Email \<mapsto> Msg (str ''Email is required''),
        Password \<mapsto> Msg (str ''Password is required'')]\<rparr>) Password =
     Some (Msg (str ''Password is required'')) \<and>
   getField Username (formData (handleInputChange Email (str ''a'')
     \<lparr>formData = sampleForm\<lparr>email := []\<rparr>,
      errors = [Email \<mapsto> Msg (str ''Email is required''),
        Password \<mapsto> Msg (str ''Password is required'')]\<rparr>)) = str ''alice''"
proof -
  let ?st = "\<lparr>formData = sampleForm\<lparr>email := []\<rparr>,
      errors = [Email \<mapsto> Msg (str ''Email is required''),
        Password \<mapsto> Msg (str ''Password is required'')]\<rparr>"
  let ?st' = "handleInputChange Email (str ''a'') ?st"
  note frame = handleInputChange_frame [of Email "str ''a''" ?st]
  have has: "truthy (readProp (errors ?st) Email)"
    by (simp add: readProp_def str_def)
  from frame has have 1: "errors ?st' Email = Some Undefined"
    by blast
  from frame have other: "\<forall>f. f \<noteq> Email \<longrightarrow>
      getField f (formData ?st') = getField f (formData ?st) \<and> errors ?st' f = errors ?st f"
    by blast
  from other have "errors ?st' Password = errors ?st Password"
    by (elim allE [of _ Password]) simp
  then have 2: "errors ?st' Password = Some (Msg (str ''Password is required''))"
    by simp
  from other have "getField Username (formData ?st') = getField Username (formData ?st)"
    by (elim allE [of _ Username]) simp
  then have 3: "getField Username (formData ?st') = str ''alice''"
    by (simp add: sampleForm_def)
  from 1 2 3 show ?thesis by blast
qed

text \<open>
  C6. The submit button is disabled iff overall password validity is false or the
  password differs from its confirmation; with the criteria of section 4.1 written out:
  iff the password is shorter than 8, or lacks an uppercase letter, a symbol or a digit,
  or equals the username, or the username is empty, or the confirmation differs.
\<close>

theorem submitDisabled_iff:
  "(submitDisabled fd \<longleftrightarrow>
      \<not> isPasswordValid (passwordCriteria fd) \<or> password fd \<noteq> confirmPassword fd) \<and>
   (submitDisabled fd \<longleftrightarrow>
      \<not> (8 \<le> length (password fd) \<and>
         (\<exists>c\<in>set (password fd). 0x41 \<le> c \<and> c \<le> 0x5A) \<and>
         (\<exists>c\<in>set (password fd). c \<in> punctuation) \<and>
         (\<exists>c\<in>set (password fd). 0x30 \<le> c \<and> c \<le> 0x39) \<and>
         password fd \<noteq> username fd \<and> password fd \<noteq> [] \<and> username fd \<noteq> []) \<or>
      password fd \<noteq> confirmPassword fd)"
proof -
  have "isPasswordValid (passwordCriteria fd) \<longleftrightarrow>
      8 \<le> length (password fd) \<and>
      (\<exists>c\<in>set (password fd). 0x41 \<le> c \<and> c \<le> 0x5A) \<and>
      (\<exists>c\<in>set (password fd). c \<in> punctuation) \<and>
      (\<exists>c\<in>set (password fd). 0x30 \<le> c \<and> c \<le> 0x39) \<and>
      password fd \<noteq> username fd \<and> password fd \<noteq> [] \<and> username fd \<noteq> []"
    unfolding valid_iff passwordCriteria_def Let_def reUppercase_def reSymbol_def reDigit_def
      test_once symbol_class
    by simp
  then show ?thesis
    unfolding submitDisabled_def by simp
qed

theorem submitDisabled_iff_witness:
  "\<not> submitDisabled sampleForm \<and>
   submitDisabled (sampleForm\<lparr>confirmPassword := str ''Abcdef2!''\<rparr>) \<and>
   submitDisabled (sampleForm\<lparr>password := str ''alice'', confirmPassword := str ''alice''\<rparr>)"
  using submitDisabled_iff [of sampleForm, THEN conjunct2]
    submitDisabled_iff [of "sampleForm\<lparr>confirmPassword := str ''Abcdef2!''\<rparr>",
      THEN conjunct2]
    submitDisabled_iff [of "sampleForm\<lparr>password := str ''alice'',
      confirmPassword := str ''alice''\<rparr>", THEN conjunct2]
  by (simp add: sampleForm_def str_def punctuation_def)

text \<open>
  C7. Whenever the submit button is disabled (overall validity false, or password and
  confirmation differ), the validator rejects the form: its error state is not empty; it
  has a password error in the first case and a confirmation error in the second.
\<close>

theorem disabled_implies_rejected:
  assumes "\<not> isPasswordValid (passwordCriteria (formData st)) \<or>
    password (formData st) \<noteq> confirmPassword (formData st)"
  shows "\<not> fst (validateForm st) \<and> errors (snd (validateForm st)) \<noteq> Map.empty \<and>
    (errors (snd (validateForm st)) Password \<noteq> None \<or>
     errors (snd (validateForm st)) ConfirmPassword \<noteq> None)"
proof -
  have "newErrors (formData st) Password \<noteq> None \<or>
      newErrors (formData st) ConfirmPassword \<noteq> None"
    using assms by (auto simp: newErrors_Password newErrors_ConfirmPassword)
  moreover from this have "newErrors (formData st) \<noteq> Map.empty"
    by auto
  ultimately show ?thesis
    by (simp add: validateForm_fst validateForm_snd)
qed

theorem disabled_implies_rejected_witness:
  "password (sampleForm\<lparr>confirmPassword := str ''Abcdef2!''\<rparr>) \<noteq>
     confirmPassword (sampleForm\<lparr>confirmPassword := str ''Abcdef2!''\<rparr>) \<and>
   \<not> fst (validateForm \<lparr>formData = sampleForm\<lparr>confirmPassword := str ''Abcdef2!''\<rparr>,
     errors = Map.empty\<rparr>)"
proof -
  let ?fd = "sampleForm\<lparr>confirmPassword := str ''Abcdef2!''\<rparr>"
  have h: "password ?fd \<noteq> confirmPassword ?fd"
    by (simp add: sampleForm_def str_def)
  with disabled_implies_rejected [of "\<lparr>formData = ?fd, errors = Map.empty\<rparr>"]
  show ?thesis by simp
qed

text \<open>
  C8. The validator is idempotent: run again on the state it produced, it gives the same
  verdict and the same state, so the same error state.
\<close>

theorem validateForm_idempotent:
  "validateForm (snd (validateForm st)) = validateForm st"
  by (simp add: validateForm_def Let_def)

theorem validateForm_idempotent_witness:
  "validateForm (snd (validateForm \<lparr>formData = sampleForm\<lparr>email := []\<rparr>,
     errors = Map.empty\<rparr>)) =
   (False, \<lparr>formData = sampleForm\<lparr>email := []\<rparr>,
     errors = [Email \<mapsto> Msg (str ''Email is required'')]\<rparr>)"
proof -
  have once: "validateForm \<lparr>formData = sampleForm\<lparr>email := []\<rparr>, errors = Map.empty\<rparr> =
      (False, \<lparr>formData = sampleForm\<lparr>email := []\<rparr>,
        errors = [Email \<mapsto> Msg (str ''Email is required'')]\<rparr>)"
    by (simp add: eval_defs)
  show ?thesis
    by (rule trans [OF validateForm_idempotent once])
qed



text \<open>
  C10. When the submit button is enabled (overall validity true and password equal to its
  confirmation), the validator produces no password error and no confirmation error; if
  it rejects the form, the error state has an email error or a username error.
\<close>

theorem enabled_only_email_username:
  assumes "\<not> submitDisabled (formData st)"
  shows "errors (snd (validateForm st)) Password = None \<and>
    errors (snd (validateForm st)) ConfirmPassword = None \<and>
    (\<not> fst (validateForm st) \<longrightarrow>
       errors (snd (validateForm st)) Email \<noteq> None \<or>
       errors (snd (validateForm st)) Username \<noteq> None)"
proof -
  from assms have v: "isPasswordValid (passwordCriteria (formData st))"
    and eq: "password (formData st) = confirmPassword (formData st)"
    by (simp_all add: submitDisabled_def)
  from v have ne: "password (formData st) \<noteq> []"
    by (rule valid_nonempty)
  have p: "newErrors (formData st) Password = None"
    using v ne by (simp add: newErrors_Password)
  have c: "newErrors (formData st) ConfirmPassword = None"
    using eq ne by (simp add: newErrors_ConfirmPassword)
  have "newErrors (formData st) = Map.empty"
    if "newErrors (formData st) Email = None" "newErrors (formData st) Username = None"
  proof
    fix f show "newErrors (formData st) f = Map.empty f"
      using that p c by (cases f) simp_all
  qed
  with p c show ?thesis
    by (auto simp: validateForm_fst validateForm_snd)
qed

theorem enabled_only_email_username_witness:
  "\<not> submitDisabled (sampleForm\<lparr>email := str ''a.b@c''\<rparr>) \<and>
   \<not> fst (validateForm \<lparr>formData = sampleForm\<lparr>email := str ''a.b@c''\<rparr>,
     errors = Map.empty\<rparr>) \<and>
   errors (snd (validateForm \<lparr>formData = sampleForm\<lparr>email := str ''a.b@c''\<rparr>,
     errors = Map.empty\<rparr>)) Password = None \<and>
   errors (snd (validateForm \<lparr>formData = sampleForm\<lparr>email := str ''a.b@c''\<rparr>,
     errors = Map.empty\<rparr>)) ConfirmPassword = None"
proof -
  let ?st = "\<lparr>formData = sampleForm\<lparr>email := str ''a.b@c''\<rparr>, errors = Map.empty\<rparr>"
  have en: "\<not> submitDisabled (formData ?st)"
    by (simp add: eval_defs)
  have rej: "\<not> fst (validateForm ?st)"
    by (simp add: eval_defs)
  from en rej enabled_only_email_username [OF en] show ?thesis
    by simp
qed

end
